theory Spec2Isabelle
  imports Main "HOL-Library.Sublist"
begin

section \<open>Python values and the exceptions of the interpreter\<close>

text \<open>
  The handlers of the service work on decoded JSON: \<^verbatim>\<open>None\<close>, booleans, integers,
  strings, lists and dictionaries with string keys. A dictionary is an association list
  with \<open>map_of\<close> as lookup. A Python \<^verbatim>\<open>str\<close> is modelled by the bytes of its UTF-8
  encoding. A JSON number is an integer or a float; the decoder of the interpreter also
  accepts \<^verbatim>\<open>NaN\<close>, \<^verbatim>\<open>Infinity\<close> and \<^verbatim>\<open>-Infinity\<close>. A finite float is given by
  mantissa and exponent; no function below computes with floats, they are only tested
  for truth, carried along and rendered.
\<close>

datatype pyfloat =
    Finite int int
  | Infinity bool
  | NaN

datatype pyval =
    PNone
  | PBool bool
  | PInt int
  | PFloat pyfloat
  | PStr string
  | PList "pyval list"
  | PDict "(string \<times> pyval) list"

text \<open>
  Exceptions are values. The text that \<^verbatim>\<open>str(e)\<close> gives is abbreviated to the name of
  the exception class, except for a transport failure, which carries its own text.
\<close>

datatype py_error =
    AttributeError
  | TypeError
  | KeyError
  | IndexError
  | JSONDecodeError
  | TransportError string

fun str_of_error :: "py_error \<Rightarrow> string" where
  "str_of_error AttributeError = ''AttributeError''"
| "str_of_error TypeError = ''TypeError''"
| "str_of_error KeyError = ''KeyError''"
| "str_of_error IndexError = ''IndexError''"
| "str_of_error JSONDecodeError = ''JSONDecodeError''"
| "str_of_error (TransportError msg) = msg"

text \<open>Sequencing of steps that may raise: the first exception ends the computation.\<close>

definition and_then :: "py_error + 'a \<Rightarrow> ('a \<Rightarrow> py_error + 'b) \<Rightarrow> py_error + 'b" where
  "and_then r f = (case r of Inl e \<Rightarrow> Inl e | Inr x \<Rightarrow> f x)"

text \<open>Truth value testing, as \<^verbatim>\<open>not x\<close> and \<^verbatim>\<open>if x\<close> use it.\<close>

fun truthy :: "pyval \<Rightarrow> bool" where
  "truthy PNone = False"
| "truthy (PBool b) = b"
| "truthy (PInt i) = (i \<noteq> 0)"
| "truthy (PFloat (Finite mantissa exponent)) = (mantissa \<noteq> 0)"
| "truthy (PFloat (Infinity negative)) = True"
| "truthy (PFloat NaN) = True"
| "truthy (PStr s) = (s \<noteq> [])"
| "truthy (PList xs) = (xs \<noteq> [])"
| "truthy (PDict kvs) = (kvs \<noteq> [])"

text \<open>\<^verbatim>\<open>x.get(key, default)\<close>: only a dictionary has the method.\<close>

fun py_get :: "pyval \<Rightarrow> string \<Rightarrow> pyval \<Rightarrow> py_error + pyval" where
  "py_get (PDict kvs) k d = Inr (case map_of kvs k of None \<Rightarrow> d | Some v \<Rightarrow> v)"
| "py_get _ k d = Inl AttributeError"

text \<open>
  \<^verbatim>\<open>x[0]\<close>: the first element of a list, the first character of a string (its
  first byte here; the callers only go on to call \<^verbatim>\<open>get\<close> on it, which a string does
  not have); a dictionary decoded from JSON has no integer key; the other values are not
  subscriptable.
\<close>

fun py_index0 :: "pyval \<Rightarrow> py_error + pyval" where
  "py_index0 (PList []) = Inl IndexError"
| "py_index0 (PList (x # xs)) = Inr x"
| "py_index0 (PStr []) = Inl IndexError"
| "py_index0 (PStr (c # cs)) = Inr (PStr [c])"
| "py_index0 (PDict kvs) = Inl KeyError"
| "py_index0 _ = Inl TypeError"

section \<open>Payload parser\<close>

text \<open>
  \<^verbatim>\<open>UnifiedWhatsAppService.parse_webhook_message\<close>: the body of the \<^verbatim>\<open>try\<close> block,
  with every \<^verbatim>\<open>get\<close> and subscript as a step that may raise, then the handler, which
  turns any exception into \<^verbatim>\<open>None\<close>.
\<close>

definition parse_webhook_message_body :: "pyval \<Rightarrow> py_error + pyval" where
  "parse_webhook_message_body data =
     and_then (py_get data ''entry'' (PList [])) (\<lambda>entries.
       if \<not> truthy entries then Inr PNone
       else
     and_then (py_index0 entries) (\<lambda>entry.
     and_then (py_get entry ''changes'' (PList [])) (\<lambda>changes.
       if \<not> truthy changes then Inr PNone
       else
     and_then (py_index0 changes) (\<lambda>change.
     and_then (py_get change ''value'' (PDict [])) (\<lambda>val.
     and_then (py_get val ''messages'' (PList [])) (\<lambda>messages.
     and_then (py_get val ''contacts'' (PList [])) (\<lambda>contacts.
       if \<not> truthy messages then Inr PNone
       else
     and_then (py_index0 messages) (\<lambda>message.
     and_then (if truthy contacts then py_index0 contacts else Inr (PDict [])) (\<lambda>contact.
     and_then (py_get message ''id'' PNone) (\<lambda>message_id.
     and_then (py_get message ''from'' PNone) (\<lambda>sender.
     and_then (py_get message ''timestamp'' PNone) (\<lambda>timestamp.
     and_then (py_get message ''type'' PNone) (\<lambda>kind.
     and_then (py_get message ''text'' (PDict [])) (\<lambda>text_obj.
     and_then (py_get text_obj ''body'' (PStr [])) (\<lambda>body.
     and_then (py_get contact ''profile'' (PDict [])) (\<lambda>profile.
     and_then (py_get profile ''name'' (PStr ''Unknown'')) (\<lambda>contact_name.
       Inr (PDict
         [(''message_id'', message_id),
          (''from'', sender),
          (''timestamp'', timestamp),
          (''type'', kind),
          (''text'', body),
          (''contact_name'', contact_name)]))))))))))))))))))"

definition parse_webhook_message :: "pyval \<Rightarrow> pyval" where
  "parse_webhook_message data =
     (case parse_webhook_message_body data of Inl e \<Rightarrow> PNone | Inr r \<Rightarrow> r)"

text \<open>
  The messages that a payload carries at the path
  \<^verbatim>\<open>entry[0].changes[0].value.messages\<close>, read structurally: a missing key, a value of
  another shape or an empty array anywhere on the path gives the empty list.
\<close>

fun field :: "pyval \<Rightarrow> string \<Rightarrow> pyval option" where
  "field (PDict kvs) k = map_of kvs k"
| "field _ k = None"

fun first_item :: "pyval \<Rightarrow> pyval option" where
  "first_item (PList (x # xs)) = Some x"
| "first_item _ = None"

fun items :: "pyval \<Rightarrow> pyval list" where
  "items (PList xs) = xs"
| "items _ = []"

definition payload_value :: "pyval \<Rightarrow> pyval option" where
  "payload_value data =
     Option.bind (field data ''entry'') (\<lambda>entries.
     Option.bind (first_item entries) (\<lambda>entry.
     Option.bind (field entry ''changes'') (\<lambda>changes.
     Option.bind (first_item changes) (\<lambda>change.
       field change ''value''))))"

definition payload_messages :: "pyval \<Rightarrow> pyval list" where
  "payload_messages data =
     (case Option.bind (payload_value data) (\<lambda>val. field val ''messages'') of
        None \<Rightarrow> []
      | Some messages \<Rightarrow> items messages)"


section \<open>Strings\<close>

text \<open>
  \<^verbatim>\<open>str.lower\<close>. On a string of ASCII characters it maps the letters A to Z to a to z.
  On every other string the result comes from the case mappings of the Unicode database
  of the interpreter, which is not modelled: it is the parameter \<open>unicode_lower\<close>, a
  function on encoded strings about which nothing is assumed.
\<close>

definition is_ascii :: "string \<Rightarrow> bool" where
  "is_ascii s = list_all (\<lambda>c. \<not> digit7 c) s"

definition lower_char :: "char \<Rightarrow> char" where
  "lower_char c =
     (case map_of (zip ''ABCDEFGHIJKLMNOPQRSTUVWXYZ'' ''abcdefghijklmnopqrstuvwxyz'') c of
        None \<Rightarrow> c
      | Some d \<Rightarrow> d)"

definition lower :: "(string \<Rightarrow> string) \<Rightarrow> string \<Rightarrow> string" where
  "lower unicode_lower s = (if is_ascii s then map lower_char s else unicode_lower s)"

text \<open>
  \<^verbatim>\<open>str.strip\<close> removes the characters for which \<^verbatim>\<open>str.isspace\<close> holds from both
  ends. These are the code points 9 to 13, 28 to 32, 0x85, 0xA0, 0x1680, 0x2000 to
  0x200A, 0x2028, 0x2029, 0x202F, 0x205F and 0x3000, here with their encodings.
\<close>

definition space_codes :: "string list" where
  "space_codes =
     [[CHR 0x09], [CHR 0x0A], [CHR 0x0B], [CHR 0x0C], [CHR 0x0D],
      [CHR 0x1C], [CHR 0x1D], [CHR 0x1E], [CHR 0x1F], [CHR 0x20],
      [CHR 0xC2, CHR 0x85], [CHR 0xC2, CHR 0xA0], [CHR 0xE1, CHR 0x9A, CHR 0x80],
      [CHR 0xE2, CHR 0x80, CHR 0x80], [CHR 0xE2, CHR 0x80, CHR 0x81],
      [CHR 0xE2, CHR 0x80, CHR 0x82], [CHR 0xE2, CHR 0x80, CHR 0x83],
      [CHR 0xE2, CHR 0x80, CHR 0x84], [CHR 0xE2, CHR 0x80, CHR 0x85],
      [CHR 0xE2, CHR 0x80, CHR 0x86], [CHR 0xE2, CHR 0x80, CHR 0x87],
      [CHR 0xE2, CHR 0x80, CHR 0x88], [CHR 0xE2, CHR 0x80, CHR 0x89],
      [CHR 0xE2, CHR 0x80, CHR 0x8A], [CHR 0xE2, CHR 0x80, CHR 0xA8],
      [CHR 0xE2, CHR 0x80, CHR 0xA9], [CHR 0xE2, CHR 0x80, CHR 0xAF],
      [CHR 0xE2, CHR 0x81, CHR 0x9F], [CHR 0xE3, CHR 0x80, CHR 0x80]]"

function lstrip_codes :: "string list \<Rightarrow> string \<Rightarrow> string" where
  "lstrip_codes codes s =
     (case find (\<lambda>w. w \<noteq> [] \<and> prefix w s) codes of
        None \<Rightarrow> s
      | Some w \<Rightarrow> lstrip_codes codes (drop (length w) s))"
  by pat_completeness auto
termination
  by (relation "measure (\<lambda>(codes, s). length s)")
     (auto simp: find_Some_iff prefix_def)

declare lstrip_codes.simps [simp del]

definition strip :: "string \<Rightarrow> string" where
  "strip s = rev (lstrip_codes (map rev space_codes) (rev (lstrip_codes space_codes s)))"

text \<open>The lower-case letters of ASCII.\<close>

definition ascii_lowercase :: string where
  "ascii_lowercase = ''abcdefghijklmnopqrstuvwxyz''"

text \<open>The substring test \<^verbatim>\<open>k in s\<close> and \<^verbatim>\<open>str.replace\<close>.\<close>

fun str_in :: "string \<Rightarrow> string \<Rightarrow> bool" where
  "str_in k [] = (k = [])"
| "str_in k (c # cs) = (prefix k (c # cs) \<or> str_in k cs)"

function str_replace :: "string \<Rightarrow> string \<Rightarrow> string \<Rightarrow> string" where
  "str_replace old new s =
     (if old = [] then new @ concat (map (\<lambda>c. c # new) s)
      else if s = [] then []
      else if prefix old s then new @ str_replace old new (drop (length old) s)
      else hd s # str_replace old new (tl s))"
  by pat_completeness auto
termination
  by (relation "measure (\<lambda>(old, new, s). length s)") auto

declare str_replace.simps [simp del]

section \<open>Configuration\<close>

text \<open>The fields of \<^verbatim>\<open>Settings\<close> that the functions below read.\<close>

record settings =
  whatsapp_token :: string
  phone_number_id :: string
  verify_token :: string
  admin_api_key :: string
  emergency_number :: string

section \<open>Outbound gateway client\<close>

text \<open>
  The gateway is the environment of \<^verbatim>\<open>send_text_message\<close>: for a request,
  \<^verbatim>\<open>client.post\<close> either raises (the text is what \<^verbatim>\<open>str(e)\<close> gives) or returns a
  response with a status code and a body; \<^verbatim>\<open>response.json()\<close> is \<open>None\<close> when the
  body is not JSON, and raises then. Every function that may post returns, beside its
  result, the list of requests it has posted.
\<close>

record http_request =
  req_url :: string
  req_headers :: "(string \<times> string) list"
  req_json :: pyval

datatype gateway_reply =
    Raised string
  | Replied int "pyval option"

type_synonym gateway = "http_request \<Rightarrow> gateway_reply"

definition base_url :: "settings \<Rightarrow> string" where
  "base_url cfg = ''https://graph.facebook.com/v17.0/'' @ phone_number_id cfg"

definition headers :: "settings \<Rightarrow> (string \<times> string) list" where
  "headers cfg =
     [(''Authorization'', ''Bearer '' @ whatsapp_token cfg),
      (''Content-Type'', ''application/json'')]"

text \<open>Lines 42 to 44 of \<^verbatim>\<open>send_text_message\<close>: the recipient in E.164 form.\<close>

definition to_clean :: "string \<Rightarrow> string" where
  "to_clean recipient =
     (let cleaned = str_replace ''-'' [] (str_replace '' '' [] (str_replace ''+'' [] recipient))
      in if \<not> prefix ''+'' cleaned then ''+'' @ cleaned else cleaned)"

definition response_json :: "pyval option \<Rightarrow> py_error + pyval" where
  "response_json body = (case body of None \<Rightarrow> Inl JSONDecodeError | Some b \<Rightarrow> Inr b)"

text \<open>
  \<^verbatim>\<open>send_text_message\<close>. The recipient is a Python value: \<^verbatim>\<open>to.replace\<close> stands
  before the \<^verbatim>\<open>try\<close> block and raises for a value that is not a string. The masked
  form of the recipient is only logged, and \<^verbatim>\<open>ensure_client\<close> only creates the HTTP
  client on first use; neither has a part in the result.
\<close>

definition send_text_message ::
  "settings \<Rightarrow> gateway \<Rightarrow> pyval \<Rightarrow> string \<Rightarrow> (py_error + pyval) \<times> http_request list" where
  "send_text_message cfg gw recipient text =
     (case recipient of
        PStr r \<Rightarrow>
          (let payload = PDict
                 [(''messaging_product'', PStr ''whatsapp''),
                  (''to'', PStr (to_clean r)),
                  (''type'', PStr ''text''),
                  (''text'', PDict [(''body'', PStr text)])];
               request = \<lparr>req_url = base_url cfg @ ''/messages'',
                          req_headers = headers cfg,
                          req_json = payload\<rparr>
           in (case gw request of
                 Raised msg \<Rightarrow>
                   Inr (PDict [(''success'', PBool False), (''error'', PStr msg)])
               | Replied status_code body \<Rightarrow>
                   (if 200 \<le> status_code \<and> status_code < 300 then
                      (case response_json body of
                         Inr decoded \<Rightarrow> Inr decoded
                       | Inl e \<Rightarrow>
                           Inr (PDict [(''success'', PBool False),
                                       (''error'', PStr (str_of_error e))]))
                    else
                      (case response_json body of
                         Inr error_data \<Rightarrow>
                           Inr (PDict [(''success'', PBool False), (''error'', error_data)])
                       | Inl e \<Rightarrow>
                           Inr (PDict [(''success'', PBool False),
                                       (''error'', PStr (str_of_error e))]))),
               [request]))
      | _ \<Rightarrow> (Inl AttributeError, []))"

section \<open>Intent router\<close>

definition nl :: string where
  "nl = [CHR 0x0A]"

definition apostrophe :: string where
  "apostrophe = [CHR 0x27]"

definition bullet :: string where
  "bullet = [CHR 0xE2, CHR 0x80, CHR 0xA2]"

definition emoji_wave :: string where
  "emoji_wave = [CHR 0xF0, CHR 0x9F, CHR 0x91, CHR 0x8B]"

definition emoji_siren :: string where
  "emoji_siren = [CHR 0xF0, CHR 0x9F, CHR 0x9A, CHR 0xA8]"

definition emoji_phone :: string where
  "emoji_phone = [CHR 0xF0, CHR 0x9F, CHR 0x93, CHR 0x9E]"

definition emoji_hospital :: string where
  "emoji_hospital = [CHR 0xF0, CHR 0x9F, CHR 0x8F, CHR 0xA5]"

definition emoji_pill :: string where
  "emoji_pill = [CHR 0xF0, CHR 0x9F, CHR 0x92, CHR 0x8A]"

definition emoji_bulb :: string where
  "emoji_bulb = [CHR 0xF0, CHR 0x9F, CHR 0x92, CHR 0xA1]"

definition emoji_warning :: string where
  "emoji_warning = [CHR 0xE2, CHR 0x9A, CHR 0xA0, CHR 0xEF, CHR 0xB8, CHR 0x8F]"

text \<open>The canned replies of \<^verbatim>\<open>generate_response\<close>, line by line.\<close>

definition greeting_reply :: string where
  "greeting_reply =
     emoji_wave @ '' Hello! Welcome to Healthcare Assistant.'' @ nl @
     nl @
     ''I can help you with:'' @ nl @
     bullet @ '' Symptom checking'' @ nl @
     bullet @ '' Health information'' @ nl @
     bullet @ '' Emergency guidance'' @ nl @
     bullet @ '' Find hospitals'' @ nl @
     bullet @ '' Medicine information'' @ nl @
     nl @
     ''How can I assist you today?''"

definition emergency_reply :: "settings \<Rightarrow> string" where
  "emergency_reply cfg =
     emoji_siren @ '' EMERGENCY ASSISTANCE'' @ nl @
     nl @
     ''If this is a medical emergency:'' @ nl @
     emoji_phone @ '' Call '' @ emergency_number cfg @ '' immediately'' @ nl @
     nl @
     ''For urgent care:'' @ nl @
     bullet @ '' Stay calm'' @ nl @
     bullet @ '' Note symptoms'' @ nl @
     bullet @ '' Contact nearest hospital'' @ nl @
     nl @
     ''Reply with your symptoms for immediate guidance.''"

definition symptom_reply :: string where
  "symptom_reply =
     emoji_hospital @ '' SYMPTOM CHECKER'' @ nl @
     nl @
     ''Please describe your symptoms in detail:'' @ nl @
     bullet @ '' When did they start?'' @ nl @
     bullet @ '' How severe are they? (1-10)'' @ nl @
     bullet @ '' Any other symptoms?'' @ nl @
     nl @
     ''I'' @ apostrophe @ ''ll provide guidance based on your symptoms.'' @ nl @
     nl @
     emoji_warning @ '' This is not a diagnosis. Seek medical care if symptoms worsen.''"

definition medicine_reply :: string where
  "medicine_reply =
     emoji_pill @ '' MEDICINE INFORMATION'' @ nl @
     nl @
     ''Please provide:'' @ nl @
     bullet @ '' Medicine name'' @ nl @
     bullet @ '' Your question about it'' @ nl @
     nl @
     ''I'' @ apostrophe @ ''ll provide information on:'' @ nl @
     bullet @ '' Usage instructions'' @ nl @
     bullet @ '' Common side effects'' @ nl @
     bullet @ '' Precautions'' @ nl @
     nl @
     emoji_warning @ '' Always consult your doctor before taking any medication.''"

definition facility_reply :: string where
  "facility_reply =
     emoji_hospital @ '' FIND HEALTHCARE FACILITIES'' @ nl @
     nl @
     ''To find nearby hospitals/clinics:'' @ nl @
     bullet @ '' Share your location'' @ nl @
     bullet @ '' Or tell me your area/city'' @ nl @
     nl @
     ''I'' @ apostrophe @ ''ll help you find:'' @ nl @
     bullet @ '' Nearest hospitals'' @ nl @
     bullet @ '' Specialist clinics'' @ nl @
     bullet @ '' Emergency centers''"

definition default_reply :: string where
  "default_reply =
     ''I'' @ apostrophe @ ''m here to help! You can ask me about:'' @ nl @
     nl @
     emoji_hospital @ '' Health symptoms'' @ nl @
     emoji_pill @ '' Medicine information'' @ nl @
     emoji_siren @ '' Emergency guidance'' @ nl @
     emoji_hospital @ '' Find hospitals'' @ nl @
     emoji_bulb @ '' Health tips'' @ nl @
     nl @
     ''What would you like to know?''"

definition error_reply :: string where
  "error_reply =
     ''Sorry, I encountered an error. Please try again.''"

text \<open>\<^verbatim>\<open>message.lower()\<close>: a method of strings only.\<close>

fun py_lower :: "(string \<Rightarrow> string) \<Rightarrow> pyval \<Rightarrow> py_error + string" where
  "py_lower unicode_lower (PStr s) = Inr (lower unicode_lower s)"
| "py_lower unicode_lower _ = Inl AttributeError"

text \<open>
  \<^verbatim>\<open>MessageProcessor.generate_response\<close>: the chain of \<^verbatim>\<open>if\<close>/\<^verbatim>\<open>elif\<close> over
  \<^verbatim>\<open>any(word in message_lower for word in [...])\<close>, and the handler that answers an
  exception with the apology.
\<close>

definition generate_response ::
  "(string \<Rightarrow> string) \<Rightarrow> settings \<Rightarrow> pyval \<Rightarrow> pyval \<Rightarrow> string" where
  "generate_response unicode_lower cfg message from_number =
     (case py_lower unicode_lower message of
        Inl e \<Rightarrow> error_reply
      | Inr lowered \<Rightarrow>
          (let message_lower = strip lowered in
           if list_ex (\<lambda>greet. str_in greet message_lower)
                [''hi'', ''hello'', ''hey'', ''namaste''] then greeting_reply
           else if list_ex (\<lambda>word. str_in word message_lower)
                [''emergency'', ''urgent'', ''critical'', ''help''] then emergency_reply cfg
           else if list_ex (\<lambda>word. str_in word message_lower)
                [''symptom'', ''pain'', ''fever'', ''cough'', ''headache''] then symptom_reply
           else if list_ex (\<lambda>word. str_in word message_lower)
                [''medicine'', ''medication'', ''drug'', ''tablet''] then medicine_reply
           else if list_ex (\<lambda>word. str_in word message_lower)
                [''hospital'', ''clinic'', ''doctor'', ''nearby''] then facility_reply
           else default_reply))"

text \<open>
  The router as the specification words it: an ordered list of keyword categories, each
  with its reply; a category matches when one of its keywords occurs in the lower-cased
  text as a contiguous substring (\<open>sublist\<close>); the first matching category gives the
  reply, and the menu is the fallback.
\<close>

definition greeting_keywords :: "string list" where
  "greeting_keywords = [''hi'', ''hello'', ''hey'', ''namaste'']"

definition emergency_keywords :: "string list" where
  "emergency_keywords = [''emergency'', ''urgent'', ''critical'', ''help'']"

definition symptom_keywords :: "string list" where
  "symptom_keywords = [''symptom'', ''pain'', ''fever'', ''cough'', ''headache'']"

definition medicine_keywords :: "string list" where
  "medicine_keywords = [''medicine'', ''medication'', ''drug'', ''tablet'']"

definition facility_keywords :: "string list" where
  "facility_keywords = [''hospital'', ''clinic'', ''doctor'', ''nearby'']"

definition mentions :: "(string \<Rightarrow> string) \<Rightarrow> string list \<Rightarrow> string \<Rightarrow> bool" where
  "mentions unicode_lower keywords text =
     list_ex (\<lambda>k. sublist k (lower unicode_lower text)) keywords"



section \<open>Inbound pipeline orchestrator\<close>

text \<open>
  \<^verbatim>\<open>message_text[:50]\<close>, evaluated for the log line: strings and lists can be sliced,
  the other values raise.
\<close>

fun py_slice_to :: "nat \<Rightarrow> pyval \<Rightarrow> py_error + pyval" where
  "py_slice_to n (PStr s) = Inr (PStr (take n s))"
| "py_slice_to n (PList xs) = Inr (PList (take n xs))"
| "py_slice_to n _ = Inl TypeError"

text \<open>
  \<^verbatim>\<open>MessageProcessor.process_webhook\<close>: the body of the \<^verbatim>\<open>try\<close> block, then the
  handler, which answers an exception with the status \<^verbatim>\<open>error\<close>.
\<close>

definition process_webhook_body ::
  "(string \<Rightarrow> string) \<Rightarrow> settings \<Rightarrow> gateway \<Rightarrow> pyval
     \<Rightarrow> (py_error + pyval) \<times> http_request list" where
  "process_webhook_body unicode_lower cfg gw data =
     (let message_data = parse_webhook_message data in
      if \<not> truthy message_data then (Inr (PDict [(''status'', PStr ''no_message'')]), [])
      else
        (case py_get message_data ''from'' PNone of
           Inl e \<Rightarrow> (Inl e, [])
         | Inr from_number \<Rightarrow>
        (case py_get message_data ''text'' (PStr []) of
           Inl e \<Rightarrow> (Inl e, [])
         | Inr message_text \<Rightarrow>
        (case py_slice_to 50 message_text of
           Inl e \<Rightarrow> (Inl e, [])
         | Inr shown \<Rightarrow>
        (let response_text = generate_response unicode_lower cfg message_text from_number in
         if response_text \<noteq> [] then
           (case send_text_message cfg gw from_number response_text of
              (Inl e, posted) \<Rightarrow> (Inl e, posted)
            | (Inr result, posted) \<Rightarrow>
                (Inr (PDict [(''status'', PStr ''processed''), (''sent'', result)]), posted))
         else (Inr (PDict [(''status'', PStr ''processed''), (''sent'', PBool False)]), []))))))"

definition process_webhook ::
  "(string \<Rightarrow> string) \<Rightarrow> settings \<Rightarrow> gateway \<Rightarrow> pyval \<Rightarrow> pyval \<times> http_request list" where
  "process_webhook unicode_lower cfg gw data =
     (case process_webhook_body unicode_lower cfg gw data of
        (Inl e, posted) \<Rightarrow>
          (PDict [(''status'', PStr ''error''), (''error'', PStr (str_of_error e))], posted)
      | (Inr result, posted) \<Rightarrow> (result, posted))"

section \<open>HTTP endpoints\<close>

text \<open>
  What a handler of \<^verbatim>\<open>main.py\<close> does with a request: it returns a body or it raises.
  A raised \<^verbatim>\<open>HTTPException\<close> is answered with its own status code, any other
  exception that leaves the handler with 500. A returned dictionary is rendered as JSON
  by the framework after the handler has returned, outside every \<^verbatim>\<open>try\<close> block of the
  handler; the rendering refuses \<^verbatim>\<open>NaN\<close> and the infinities (\<^verbatim>\<open>allow_nan=False\<close>) and
  raises for them, so that the answer is 500 then, and 200 otherwise.
\<close>

fun finite_float :: "pyfloat \<Rightarrow> bool" where
  "finite_float (Finite mantissa exponent) = True"
| "finite_float (Infinity negative) = False"
| "finite_float NaN = False"

fun json_compliant :: "pyval \<Rightarrow> bool" where
  "json_compliant (PFloat x) = finite_float x"
| "json_compliant (PList xs) = list_all json_compliant xs"
| "json_compliant (PDict kvs) = list_all (\<lambda>kv. json_compliant (snd kv)) kvs"
| "json_compliant _ = True"

datatype reply_body =
    Json pyval
  | Plain string

datatype raised =
    HTTPException int string
  | OtherException py_error

type_synonym http_result = "raised + reply_body"

fun status_code :: "http_result \<Rightarrow> int" where
  "status_code (Inr (Json v)) = (if json_compliant v then 200 else 500)"
| "status_code (Inr (Plain s)) = 200"
| "status_code (Inl (HTTPException code detail)) = code"
| "status_code (Inl (OtherException e)) = 500"

subsection \<open>Admin authentication\<close>

text \<open>
  \<^verbatim>\<open>secrets.compare_digest\<close> on two strings: the interpreter accepts ASCII strings only
  and raises \<^verbatim>\<open>TypeError\<close> when one of them has a character outside ASCII (a byte with
  the high bit set in the encoding, \<open>is_ascii\<close> above).
\<close>

definition compare_digest :: "string \<Rightarrow> string \<Rightarrow> py_error + bool" where
  "compare_digest a b = (if is_ascii a \<and> is_ascii b then Inr (a = b) else Inl TypeError)"

text \<open>
  \<^verbatim>\<open>verify_admin_api_key\<close>; the candidate is the value of the header
  \<^verbatim>\<open>X-API-Key\<close>, \<open>None\<close> when the request has none.
\<close>

definition verify_admin_api_key :: "settings \<Rightarrow> string option \<Rightarrow> py_error + bool" where
  "verify_admin_api_key cfg api_key =
     (case api_key of
        None \<Rightarrow> Inr False
      | Some key \<Rightarrow>
          if key = [] \<or> admin_api_key cfg = [] then Inr False
          else compare_digest key (admin_api_key cfg))"

definition admin_auth_required :: "settings \<Rightarrow> string option \<Rightarrow> raised + bool" where
  "admin_auth_required cfg x_api_key =
     (case verify_admin_api_key cfg x_api_key of
        Inl e \<Rightarrow> Inl (OtherException e)
      | Inr ok \<Rightarrow>
          if \<not> ok then Inl (HTTPException 401 ''Invalid or missing API key'')
          else Inr True)"

subsection \<open>Webhook handshake\<close>

text \<open>
  \<^verbatim>\<open>verify_webhook\<close>: the three query parameters are \<open>None\<close> when absent. The body of
  \<^verbatim>\<open>Response(content=None)\<close> is empty.
\<close>

definition verify_webhook ::
  "settings \<Rightarrow> string option \<Rightarrow> string option \<Rightarrow> string option \<Rightarrow> http_result" where
  "verify_webhook cfg hub_mode hub_verify_token hub_challenge =
     (if hub_mode = Some ''subscribe'' \<and> hub_verify_token = Some (verify_token cfg) then
        Inr (Plain (case hub_challenge of None \<Rightarrow> [] | Some challenge \<Rightarrow> challenge))
      else Inl (HTTPException 403 ''Verification failed''))"

subsection \<open>Webhook delivery\<close>

text \<open>\<^verbatim>\<open>len(x)\<close>: strings, lists and dictionaries have a length.\<close>

fun py_len :: "pyval \<Rightarrow> py_error + nat" where
  "py_len (PStr s) = Inr (length s)"
| "py_len (PList xs) = Inr (length xs)"
| "py_len (PDict kvs) = Inr (length kvs)"
| "py_len _ = Inl TypeError"

text \<open>
  \<^verbatim>\<open>receive_message\<close>: the request body is \<open>None\<close> when it is not JSON, and
  \<^verbatim>\<open>request.json()\<close> raises then; \<open>message_processor\<close> tells whether the global of
  that name has been set at startup.
\<close>

definition receive_message_body ::
  "(string \<Rightarrow> string) \<Rightarrow> settings \<Rightarrow> gateway \<Rightarrow> bool \<Rightarrow> pyval option
     \<Rightarrow> (py_error + pyval) \<times> http_request list" where
  "receive_message_body unicode_lower cfg gw message_processor body =
     (case response_json body of
        Inl e \<Rightarrow> (Inl e, [])
      | Inr data \<Rightarrow>
        (case and_then (py_get data ''entry'' (PList [])) py_len of
           Inl e \<Rightarrow> (Inl e, [])
         | Inr entry_count \<Rightarrow>
             if message_processor then
               (case process_webhook unicode_lower cfg gw data of
                  (result, posted) \<Rightarrow>
                    (Inr (PDict [(''status'', PStr ''success''), (''result'', result)]), posted))
             else
               (Inr (PDict [(''status'', PStr ''error''),
                            (''message'', PStr ''Service not ready'')]), [])))"

definition receive_message ::
  "(string \<Rightarrow> string) \<Rightarrow> settings \<Rightarrow> gateway \<Rightarrow> bool \<Rightarrow> pyval option
     \<Rightarrow> http_result \<times> http_request list" where
  "receive_message unicode_lower cfg gw message_processor body =
     (case receive_message_body unicode_lower cfg gw message_processor body of
        (Inl e, posted) \<Rightarrow>
          (Inr (Json (PDict [(''status'', PStr ''error''),
                             (''message'', PStr (str_of_error e))])), posted)
      | (Inr result, posted) \<Rightarrow> (Inr (Json result), posted))"

subsection \<open>Admin broadcast\<close>

text \<open>
  \<^verbatim>\<open>send_broadcast_alert\<close>. The class \<^verbatim>\<open>AdminAlertService\<close> is not part of the
  sources at hand, so its method \<^verbatim>\<open>send_broadcast\<close> is a parameter: a function of
  message, alert type and priority that returns a result or raises; \<open>None\<close> stands for
  the global \<^verbatim>\<open>admin_alert_service\<close> not being set. Beside the answer the handler
  returns the calls of \<^verbatim>\<open>send_broadcast\<close> it has made.
\<close>

type_synonym broadcast_service = "pyval \<Rightarrow> pyval \<Rightarrow> pyval \<Rightarrow> py_error + pyval"

type_synonym broadcast_call = "pyval \<times> pyval \<times> pyval"

definition send_broadcast_alert_body ::
  "broadcast_service option \<Rightarrow> pyval option \<Rightarrow> (raised + pyval) \<times> broadcast_call list" where
  "send_broadcast_alert_body alert_service body =
     (case response_json body of
        Inl e \<Rightarrow> (Inl (OtherException e), [])
      | Inr data \<Rightarrow>
     (case py_get data ''message'' PNone of
        Inl e \<Rightarrow> (Inl (OtherException e), [])
      | Inr message \<Rightarrow>
     (case py_get data ''alert_type'' (PStr ''info'') of
        Inl e \<Rightarrow> (Inl (OtherException e), [])
      | Inr alert_type \<Rightarrow>
     (case py_get data ''priority'' (PStr ''normal'') of
        Inl e \<Rightarrow> (Inl (OtherException e), [])
      | Inr priority \<Rightarrow>
          if \<not> truthy message then (Inl (HTTPException 400 ''Message is required''), [])
          else
            (case alert_service of
               None \<Rightarrow> (Inl (HTTPException 503 ''Alert service not available''), [])
             | Some send_broadcast \<Rightarrow>
                 (case send_broadcast message alert_type priority of
                    Inl e \<Rightarrow> (Inl (OtherException e), [(message, alert_type, priority)])
                  | Inr result \<Rightarrow>
                      (Inr (PDict
                         [(''status'', PStr ''success''),
                          (''message'', PStr ''Broadcast alert sent successfully''),
                          (''result'', result)]),
                       [(message, alert_type, priority)])))))))"

definition send_broadcast_alert ::
  "settings \<Rightarrow> broadcast_service option \<Rightarrow> string option \<Rightarrow> pyval option
     \<Rightarrow> http_result \<times> broadcast_call list" where
  "send_broadcast_alert cfg alert_service x_api_key body =
     (case admin_auth_required cfg x_api_key of
        Inl r \<Rightarrow> (Inl r, [])
      | Inr authenticated \<Rightarrow>
          (case send_broadcast_alert_body alert_service body of
             (Inl (HTTPException code detail), calls) \<Rightarrow> (Inl (HTTPException code detail), calls)
           | (Inl (OtherException e), calls) \<Rightarrow> (Inl (HTTPException 500 (str_of_error e)), calls)
           | (Inr result, calls) \<Rightarrow> (Inr (Json result), calls)))"

section \<open>Alert sending with retry\<close>

text \<open>
  \<^verbatim>\<open>send_alert_with_retry\<close> of \<^verbatim>\<open>send_alert.py\<close>. The HTTP client is the
  environment: \<open>client n\<close> is what the request of attempt \<open>n\<close> gives, a response or an
  exception. The function returns its result (\<open>None\<close> when the loop ends without a
  \<^verbatim>\<open>return\<close>) and what it has done: the requests, each with its timeout, and the
  sleeps, in seconds.
\<close>

datatype alert_event =
    Post string pyval pyval int
  | Get string pyval int
  | Sleep nat

function send_alert_from ::
  "string \<Rightarrow> string \<Rightarrow> int \<Rightarrow> int \<Rightarrow> pyval \<Rightarrow> pyval \<Rightarrow> (nat \<Rightarrow> py_error + 'r) \<Rightarrow> nat
     \<Rightarrow> (py_error + 'r option) \<times> alert_event list" where
  "send_alert_from url method max_retries timeout hdrs json_data client attempt =
     (if int attempt < max_retries then
        (let request = (if method = ''POST'' then Post url hdrs json_data timeout
                        else Get url hdrs timeout)
         in case client attempt of
              Inr response \<Rightarrow> (Inr (Some response), [request])
            | Inl e \<Rightarrow>
                if int attempt = max_retries - 1 then (Inl e, [request])
                else
                  (case send_alert_from url method max_retries timeout hdrs json_data client
                          (Suc attempt) of
                     (result, events) \<Rightarrow> (result, request # Sleep (2 ^ attempt) # events)))
      else (Inr None, []))"
  by pat_completeness auto
termination
  by (relation "measure (\<lambda>(url, method, max_retries, timeout, hdrs, json_data, client, attempt).
        nat (max_retries - int attempt))") auto

declare send_alert_from.simps [simp del]

definition send_alert_with_retry ::
  "string \<Rightarrow> string \<Rightarrow> int \<Rightarrow> int \<Rightarrow> pyval \<Rightarrow> pyval \<Rightarrow> (nat \<Rightarrow> py_error + 'r)
     \<Rightarrow> (py_error + 'r option) \<times> alert_event list" where
  "send_alert_with_retry url method max_retries timeout hdrs json_data client =
     send_alert_from url method max_retries timeout hdrs json_data client 0"

text \<open>The default values of the keyword parameters.\<close>

definition default_method :: string where
  "default_method = ''POST''"

definition default_max_retries :: int where
  "default_max_retries = 3"

definition default_timeout :: int where
  "default_timeout = 120"

section \<open>Example inputs\<close>

definition example_settings :: settings where
  "example_settings =
     \<lparr>whatsapp_token = ''EAAG-token'',
      phone_number_id = ''106540352242922'',
      verify_token = ''verify-me'',
      admin_api_key = ''s3cret-admin-key'',
      emergency_number = ''112''\<rparr>"

text \<open>A delivery receipt: the value carries \<^verbatim>\<open>statuses\<close> and no messages.\<close>

definition status_callback :: pyval where
  "status_callback =
     PDict [(''entry'', PList [PDict [(''changes'', PList [PDict [(''value'',
       PDict [(''statuses'', PList [PDict [(''id'', PStr ''m0''),
                                            (''status'', PStr ''delivered'')]])])]])]])]"

text \<open>The inbound event of the end-to-end example of the specification.\<close>

definition hello_message :: pyval where
  "hello_message =
     PDict [(''id'', PStr ''m1''), (''from'', PStr ''5551234''), (''type'', PStr ''text''),
            (''text'', PDict [(''body'', PStr ''Hello there'')])]"

definition hello_event :: pyval where
  "hello_event =
     PDict [(''entry'', PList [PDict [(''changes'', PList [PDict [(''value'',
       PDict [(''messages'', PList [hello_message])])]])]])]"

text \<open>A gateway that accepts every message, with the body it answers.\<close>

definition accepted_reply :: pyval where
  "accepted_reply =
     PDict [(''messaging_product'', PStr ''whatsapp''),
            (''contacts'', PList [PDict [(''input'', PStr ''+5551234''),
                                         (''wa_id'', PStr ''5551234'')]]),
            (''messages'', PList [PDict [(''id'', PStr ''wamid.HBgL'')]])]"

definition accepting_gateway :: gateway where
  "accepting_gateway request = Replied 200 (Some accepted_reply)"



definition nan_gateway :: gateway where
  "nan_gateway request = Replied 200 (Some (PDict [(''quota'', PFloat NaN)]))"

definition dotted_i_text :: string where
  "dotted_i_text = ''H'' @ [CHR 0xC4, CHR 0xB0] @ '' help''"

definition dotted_i_lower :: "string \<Rightarrow> string" where
  "dotted_i_lower s =
     (if s = dotted_i_text then ''hi'' @ [CHR 0xCC, CHR 0x87] @ '' help'' else s)"

text \<open>The same event with a message that names no sender.\<close>

definition anonymous_event :: pyval where
  "anonymous_event =
     PDict [(''entry'', PList [PDict [(''changes'', PList [PDict [(''value'',
       PDict [(''messages'', PList [PDict [(''id'', PStr ''m2''), (''type'', PStr ''text''),
            (''text'', PDict [(''body'', PStr ''Hello there'')])]])])]])]])]"

text \<open>An HTTP client whose first two requests time out and whose third is answered.\<close>

definition flaky_client :: "nat \<Rightarrow> py_error + pyval" where
  "flaky_client n =
     (if n < 2 then Inl (TransportError ''timed out'')
      else Inr (PDict [(''status'', PStr ''success'')]))"

text \<open>Which events of a run of \<^verbatim>\<open>send_alert_with_retry\<close> are requests.\<close>

fun is_request :: "alert_event \<Rightarrow> bool" where
  "is_request (Sleep seconds) = False"
| "is_request (Post url hdrs json_data timeout) = True"
| "is_request (Get url hdrs timeout) = True"

text \<open>
  A key with a character outside ASCII (an e with acute accent, two bytes in the
  encoding), a broadcast request and an alert service that answers every call.
\<close>

definition non_ascii_key :: string where
  "non_ascii_key = [CHR 0xC3, CHR 0xA9]"

definition alert_body :: pyval where
  "alert_body =
     PDict [(''message'', PStr ''Boil water before drinking''),
            (''alert_type'', PStr ''emergency''),
            (''priority'', PStr ''high'')]"

definition answering_service :: broadcast_service where
  "answering_service message alert_type priority = Inr (PDict [(''sent'', PInt 1)])"

section \<open>Properties of the payload parser\<close>

lemma and_then_Inr_iff:
  "and_then r f = Inr y \<longleftrightarrow> (\<exists>x. r = Inr x \<and> f x = Inr y)"
  by (cases r) (simp_all add: and_then_def)

lemma py_get_Inr:
  "py_get x k d = Inr v \<Longrightarrow>
     \<exists>kvs. x = PDict kvs \<and> v = (case map_of kvs k of None \<Rightarrow> d | Some w \<Rightarrow> w)"
  by (cases x) auto

lemma py_index0_dict:
  "py_index0 x = Inr (PDict kvs) \<Longrightarrow> \<exists>xs. x = PList (PDict kvs # xs)"
  by (cases x rule: py_index0.cases) auto

text \<open>
  When the body of the parser returns a record, the payload carries a non-empty array of
  messages at the path.
\<close>

lemma parse_record_has_messages:
  assumes "parse_webhook_message_body data = Inr r" and "r \<noteq> PNone"
  shows "payload_messages data \<noteq> []"
  using assms unfolding parse_webhook_message_body_def
  by (auto simp: and_then_Inr_iff payload_messages_def payload_value_def
           split: if_splits option.splits dest!: py_get_Inr py_index0_dict)

text \<open>
  Claim C3. For every payload whose path \<^verbatim>\<open>entry[0].changes[0].value\<close> carries no
  non-empty array \<^verbatim>\<open>messages\<close> (keys missing, values of another shape, arrays empty
  at any level, a payload that is no dictionary at all), \<^verbatim>\<open>parse_webhook_message\<close>
  returns \<^verbatim>\<open>None\<close>. It never raises: every step that can raise is a step of the body,
  and the handler turns each exception into \<^verbatim>\<open>None\<close>.
\<close>

theorem parse_without_messages_is_None:
  "payload_messages data = [] \<Longrightarrow> parse_webhook_message data = PNone"
proof (cases "parse_webhook_message_body data")
  case (Inl e)
  then show ?thesis by (simp add: parse_webhook_message_def)
next
  case (Inr r)
  assume "payload_messages data = []"
  with parse_record_has_messages [OF Inr] have "r = PNone" by blast
  with Inr show ?thesis by (simp add: parse_webhook_message_def)
qed

theorem parse_without_messages_is_None_witness:
  "payload_messages status_callback = [] \<and> parse_webhook_message status_callback = PNone"
proof -
  have h: "payload_messages status_callback = []"
    by (simp add: payload_messages_def payload_value_def status_callback_def)
  from h parse_without_messages_is_None [OF h] show ?thesis by simp
qed

section \<open>Properties of the strings\<close>

lemma str_in_sublist: "str_in k s = sublist k s"
  by (induction s) (simp_all add: sublist_Cons_right)

lemma str_replace_char_filter:
  "str_replace [c] [] s = filter (\<lambda>x. x \<noteq> c) s"
proof (induction s)
  case Nil
  show ?case by (simp add: str_replace.simps)
next
  case (Cons x xs)
  show ?case
    by (subst str_replace.simps) (simp add: Cons)
qed

lemma sublist_append_disjoint:
  assumes "set w \<inter> set k = {}" and "k \<noteq> []"
  shows "sublist k (w @ s) = sublist k s"
  using assms
proof (induction w)
  case Nil
  show ?case by simp
next
  case (Cons x w)
  from Cons.prems obtain a as where k: "k = a # as" by (cases k) auto
  with Cons.prems have "a \<noteq> x" by auto
  with k have np: "\<not> prefix k (x # w @ s)" by simp
  from Cons.prems have "set w \<inter> set k = {}" by auto
  with Cons.IH Cons.prems(2) have "sublist k (w @ s) = sublist k s" by blast
  with np show ?case by (simp add: sublist_Cons_right)
qed

lemma lstrip_codes_None:
  "find (\<lambda>w. w \<noteq> [] \<and> prefix w s) codes = None \<Longrightarrow> lstrip_codes codes s = s"
  by (simp add: lstrip_codes.simps [of codes s])

lemma lstrip_codes_Some:
  "find (\<lambda>w. w \<noteq> [] \<and> prefix w s) codes = Some w \<Longrightarrow>
     lstrip_codes codes s = lstrip_codes codes (drop (length w) s)"
  by (simp add: lstrip_codes.simps [of codes s])

text \<open>
  Removing leading codes does not change whether a word occurs that shares no byte
  with any of the codes.
\<close>

lemma sublist_lstrip_codes:
  assumes "\<forall>w\<in>set codes. set w \<inter> set k = {}" and "k \<noteq> []"
  shows "sublist k (lstrip_codes codes s) = sublist k s"
  using assms
proof (induction codes s rule: lstrip_codes.induct)
  case (1 codes s)
  show ?case
  proof (cases "find (\<lambda>w. w \<noteq> [] \<and> prefix w s) codes")
    case None
    then show ?thesis by (simp only: lstrip_codes_None)
  next
    case (Some w)
    then have w: "w \<in> set codes" and p: "prefix w s"
      by (auto simp: find_Some_iff)
    from p obtain t where t: "s = w @ t" by (rule prefixE)
    then have dr: "drop (length w) s = t" by simp
    from w "1.prems"(1) have d: "set w \<inter> set k = {}" by blast
    have "sublist k (lstrip_codes codes s) = sublist k (lstrip_codes codes t)"
      using lstrip_codes_Some [OF Some] dr by (simp only:)
    also have "\<dots> = sublist k t"
      using "1.IH" [OF Some "1.prems"] dr by (simp only:)
    also have "\<dots> = sublist k s"
      using sublist_append_disjoint [OF d "1.prems"(2), of t] t by (simp only:)
    finally show ?thesis .
  qed
qed

lemma space_codes_no_letter:
  "\<forall>w\<in>set space_codes. set w \<inter> set ascii_lowercase = {}"
  by (simp add: space_codes_def ascii_lowercase_def)

text \<open>Stripping does not change which words of lower-case letters occur in a text.\<close>

lemma sublist_strip:
  assumes "k \<noteq> []" and "set k \<subseteq> set ascii_lowercase"
  shows "sublist k (strip s) = sublist k s"
proof -
  from assms(2) space_codes_no_letter
  have d: "\<forall>w\<in>set space_codes. set w \<inter> set k = {}" by blast
  then have r: "\<forall>w\<in>set (map rev space_codes). set w \<inter> set (rev k) = {}" by simp
  from assms(1) have k: "rev k \<noteq> []" by simp
  have "sublist k (strip s) =
          sublist (rev k) (lstrip_codes (map rev space_codes) (rev (lstrip_codes space_codes s)))"
    by (simp add: strip_def sublist_rev_right)
  also have "\<dots> = sublist (rev k) (rev (lstrip_codes space_codes s))"
    by (rule sublist_lstrip_codes [OF r k])
  also have "\<dots> = sublist k (lstrip_codes space_codes s)"
    by simp
  also have "\<dots> = sublist k s"
    by (rule sublist_lstrip_codes [OF d assms(1)])
  finally show ?thesis .
qed

section \<open>Properties of the recipient normalisation\<close>

lemma to_clean_eq:
  "to_clean r =
     CHR ''+'' # filter (\<lambda>x. x \<noteq> CHR ''+'' \<and> x \<noteq> CHR '' '' \<and> x \<noteq> CHR ''-'') r"
proof -
  have "\<not> prefix ''+'' (filter (\<lambda>x. x \<noteq> CHR ''-'')
          (filter (\<lambda>x. x \<noteq> CHR '' '') (filter (\<lambda>x. x \<noteq> CHR ''+'') r)))"
    by (induction r) auto
  then show ?thesis
    by (auto simp: to_clean_def str_replace_char_filter Let_def conj_commute intro: filter_cong)
qed

lemma send_text_message_posted:
  "snd (send_text_message cfg gw (PStr r) text) =
     [\<lparr>req_url = base_url cfg @ ''/messages'',
       req_headers = headers cfg,
       req_json = PDict
         [(''messaging_product'', PStr ''whatsapp''),
          (''to'', PStr (to_clean r)),
          (''type'', PStr ''text''),
          (''text'', PDict [(''body'', PStr text)])]\<rparr>]"
  by (simp add: send_text_message_def Let_def)

text \<open>
  Claim C10. For every recipient string, \<^verbatim>\<open>send_text_message\<close> posts one request whose
  field \<^verbatim>\<open>to\<close> is the normalised recipient; the normalised recipient begins with
  \<^verbatim>\<open>+\<close>, has no \<^verbatim>\<open>+\<close>, space or hyphen after the first character, and normalising
  it again returns it unchanged.
\<close>

theorem recipient_normalised:
  "(\<exists>request. snd (send_text_message cfg gw (PStr r) text) = [request]
       \<and> field (req_json request) ''to'' = Some (PStr (to_clean r)))
   \<and> (\<exists>rest. to_clean r = CHR ''+'' # rest
         \<and> (\<forall>c\<in>set rest. c \<noteq> CHR ''+'' \<and> c \<noteq> CHR '' '' \<and> c \<noteq> CHR ''-''))
   \<and> to_clean (to_clean r) = to_clean r"
proof (intro conjI)
  show "\<exists>request. snd (send_text_message cfg gw (PStr r) text) = [request]
       \<and> field (req_json request) ''to'' = Some (PStr (to_clean r))"
    by (simp add: send_text_message_posted)
  show "\<exists>rest. to_clean r = CHR ''+'' # rest
         \<and> (\<forall>c\<in>set rest. c \<noteq> CHR ''+'' \<and> c \<noteq> CHR '' '' \<and> c \<noteq> CHR ''-'')"
    by (simp add: to_clean_eq)
  show "to_clean (to_clean r) = to_clean r"
    by (simp add: to_clean_eq)
qed

theorem recipient_normalised_witness:
  "to_clean ''+1 555-123 4567'' = ''+15551234567''
   \<and> to_clean (to_clean ''+1 555-123 4567'') = to_clean ''+1 555-123 4567''"
  using recipient_normalised [of example_settings "\<lambda>request. Raised ''timeout''"
      "''+1 555-123 4567''" "''hello''"]
  by (simp add: to_clean_eq)

section \<open>Properties of the intent router\<close>

lemma any_in_strip:
  assumes "\<forall>k\<in>set ks. k \<noteq> [] \<and> set k \<subseteq> set ascii_lowercase"
  shows "list_ex (\<lambda>k. str_in k (strip (lower ul text))) ks = mentions ul ks text"
  using assms by (induction ks) (simp_all add: mentions_def str_in_sublist sublist_strip)

lemma keywords_of_letters:
  "\<forall>k\<in>set greeting_keywords. k \<noteq> [] \<and> set k \<subseteq> set ascii_lowercase"
  "\<forall>k\<in>set emergency_keywords. k \<noteq> [] \<and> set k \<subseteq> set ascii_lowercase"
  "\<forall>k\<in>set symptom_keywords. k \<noteq> [] \<and> set k \<subseteq> set ascii_lowercase"
  "\<forall>k\<in>set medicine_keywords. k \<noteq> [] \<and> set k \<subseteq> set ascii_lowercase"
  "\<forall>k\<in>set facility_keywords. k \<noteq> [] \<and> set k \<subseteq> set ascii_lowercase"
  by (simp_all add: greeting_keywords_def emergency_keywords_def symptom_keywords_def
        medicine_keywords_def facility_keywords_def ascii_lowercase_def)

lemma generate_response_chain:
  "generate_response ul cfg (PStr text) from_number =
     (if mentions ul greeting_keywords text then greeting_reply
      else if mentions ul emergency_keywords text then emergency_reply cfg
      else if mentions ul symptom_keywords text then symptom_reply
      else if mentions ul medicine_keywords text then medicine_reply
      else if mentions ul facility_keywords text then facility_reply
      else default_reply)"
  unfolding generate_response_def py_lower.simps sum.case Let_def
    any_in_strip [OF keywords_of_letters(1), unfolded greeting_keywords_def]
    any_in_strip [OF keywords_of_letters(2), unfolded emergency_keywords_def]
    any_in_strip [OF keywords_of_letters(3), unfolded symptom_keywords_def]
    any_in_strip [OF keywords_of_letters(4), unfolded medicine_keywords_def]
    any_in_strip [OF keywords_of_letters(5), unfolded facility_keywords_def]
  unfolding greeting_keywords_def emergency_keywords_def symptom_keywords_def
    medicine_keywords_def facility_keywords_def
  by (rule refl)

lemmas mentions_eval =
  mentions_def lower_def is_ascii_def lower_char_def sublist_code(3) greeting_keywords_def
  emergency_keywords_def symptom_keywords_def medicine_keywords_def facility_keywords_def

text \<open>
  A text with a capital I with dot above: its lower-cased form has the letters
  \<^verbatim>\<open>hi\<close>, so that the greeting wins over the emergency keyword \<^verbatim>\<open>help\<close>.
\<close>

lemma generate_response_dotted_i:
  "generate_response dotted_i_lower cfg (PStr dotted_i_text) from_number = greeting_reply"
  by (simp add: generate_response_chain mentions_eval dotted_i_lower_def dotted_i_text_def)



section \<open>Properties of the outbound gateway client\<close>

lemma send_text_message_outcome:
  "\<exists>result request. send_text_message cfg gw (PStr r) text = (Inr result, [request])
     \<and> (case gw request of
           Raised msg \<Rightarrow>
             result = PDict [(''success'', PBool False), (''error'', PStr msg)]
         | Replied status body \<Rightarrow>
             (if 200 \<le> status \<and> status < 300 then
                (\<forall>decoded. body = Some decoded \<longrightarrow> result = decoded)
                \<and> (body = None \<longrightarrow>
                     result = PDict [(''success'', PBool False),
                                     (''error'', PStr ''JSONDecodeError'')])
              else
                (\<forall>error_data. body = Some error_data \<longrightarrow>
                     result = PDict [(''success'', PBool False), (''error'', error_data)])
                \<and> (body = None \<longrightarrow>
                     result = PDict [(''success'', PBool False),
                                     (''error'', PStr ''JSONDecodeError'')])))"
  by (auto simp: send_text_message_def Let_def response_json_def
           split: gateway_reply.splits option.splits)

lemma send_text_message_not_string:
  "(\<forall>s. recipient \<noteq> PStr s) \<Longrightarrow>
     send_text_message cfg gw recipient text = (Inl AttributeError, [])"
  by (cases recipient) (simp_all add: send_text_message_def)



section \<open>Properties of the inbound pipeline orchestrator\<close>

lemma replies_nonempty:
  "greeting_reply \<noteq> []" "emergency_reply cfg \<noteq> []" "symptom_reply \<noteq> []"
  "medicine_reply \<noteq> []" "facility_reply \<noteq> []" "default_reply \<noteq> []" "error_reply \<noteq> []"
  by (simp_all add: greeting_reply_def emergency_reply_def symptom_reply_def medicine_reply_def
      facility_reply_def default_reply_def error_reply_def emoji_wave_def emoji_siren_def
      emoji_hospital_def emoji_pill_def)

lemma generate_response_nonempty: "generate_response ul cfg message from_number \<noteq> []"
  by (simp add: generate_response_def Let_def replies_nonempty split: sum.splits)

text \<open>The parser returns \<^verbatim>\<open>None\<close> or a record with its six keys.\<close>

lemma parse_shape:
  "parse_webhook_message data = PNone \<or>
   (\<exists>a b c d e f. parse_webhook_message data = PDict
         [(''message_id'', a), (''from'', b), (''timestamp'', c), (''type'', d),
          (''text'', e), (''contact_name'', f)])"
  unfolding parse_webhook_message_def parse_webhook_message_body_def
  by (auto simp: and_then_def split: sum.splits if_splits)

lemma parse_hello_event:
  "parse_webhook_message hello_event = PDict
     [(''message_id'', PStr ''m1''), (''from'', PStr ''5551234''), (''timestamp'', PNone),
      (''type'', PStr ''text''), (''text'', PStr ''Hello there''),
      (''contact_name'', PStr ''Unknown'')]"
  by (simp add: parse_webhook_message_def parse_webhook_message_body_def hello_event_def
        hello_message_def and_then_def)

lemma parse_anonymous_event:
  "parse_webhook_message anonymous_event = PDict
     [(''message_id'', PStr ''m2''), (''from'', PNone), (''timestamp'', PNone),
      (''type'', PStr ''text''), (''text'', PStr ''Hello there''),
      (''contact_name'', PStr ''Unknown'')]"
  by (simp add: parse_webhook_message_def parse_webhook_message_body_def anonymous_event_def
        and_then_def)

lemma process_no_message:
  "parse_webhook_message data = PNone \<Longrightarrow>
     process_webhook ul cfg gw data = (PDict [(''status'', PStr ''no_message'')], [])"
  by (simp add: process_webhook_def process_webhook_body_def)

lemma process_record:
  assumes "parse_webhook_message data = PDict
         [(''message_id'', a), (''from'', b), (''timestamp'', c), (''type'', d),
          (''text'', e), (''contact_name'', f)]"
  shows "process_webhook_body ul cfg gw data =
     (case py_slice_to 50 e of
        Inl err \<Rightarrow> (Inl err, [])
      | Inr shown \<Rightarrow>
          (case send_text_message cfg gw b (generate_response ul cfg e b) of
              (Inl err, posted) \<Rightarrow> (Inl err, posted)
            | (Inr result, posted) \<Rightarrow>
                (Inr (PDict [(''status'', PStr ''processed''), (''sent'', result)]), posted)))"
  by (simp add: process_webhook_body_def assms generate_response_nonempty Let_def
           split: sum.splits)

lemma process_one_send:
  assumes "field (parse_webhook_message data) ''from'' = Some (PStr sender)"
      and "field (parse_webhook_message data) ''text'' = Some (PStr message_text)"
  shows "\<exists>result request.
           send_text_message cfg gw (PStr sender)
               (generate_response ul cfg (PStr message_text) (PStr sender))
             = (Inr result, [request])
           \<and> process_webhook ul cfg gw data =
               (PDict [(''status'', PStr ''processed''), (''sent'', result)], [request])"
proof -
  from assms(1) have "parse_webhook_message data \<noteq> PNone" by auto
  with parse_shape [of data] obtain a b c d e f where
    p: "parse_webhook_message data = PDict
         [(''message_id'', a), (''from'', b), (''timestamp'', c), (''type'', d),
          (''text'', e), (''contact_name'', f)]"
    by blast
  from assms p have b: "b = PStr sender" and e: "e = PStr message_text" by simp_all
  from send_text_message_outcome
    [of cfg gw sender "generate_response ul cfg (PStr message_text) (PStr sender)"]
  obtain result request where
    s: "send_text_message cfg gw (PStr sender)
          (generate_response ul cfg (PStr message_text) (PStr sender))
             = (Inr result, [request])"
    by blast
  have "process_webhook ul cfg gw data =
          (PDict [(''status'', PStr ''processed''), (''sent'', result)], [request])"
    by (simp add: process_webhook_def process_record [OF p] b e s)
  with s show ?thesis by blast
qed

lemma process_no_sender:
  assumes "field (parse_webhook_message data) ''from'' = Some v" and "\<forall>s. v \<noteq> PStr s"
  shows "snd (process_webhook ul cfg gw data) = []
         \<and> field (fst (process_webhook ul cfg gw data)) ''status'' = Some (PStr ''error'')"
proof -
  from assms(1) have "parse_webhook_message data \<noteq> PNone" by auto
  with parse_shape [of data] obtain a b c d e f where
    p: "parse_webhook_message data = PDict
         [(''message_id'', a), (''from'', b), (''timestamp'', c), (''type'', d),
          (''text'', e), (''contact_name'', f)]"
    by blast
  from assms p have b: "b = v" by simp
  show ?thesis
    by (simp add: process_webhook_def process_record [OF p] b
          send_text_message_not_string [OF assms(2)] split: sum.splits)
qed

lemma process_hello_event:
  "fst (process_webhook id example_settings accepting_gateway hello_event) =
     PDict [(''status'', PStr ''processed''), (''sent'', accepted_reply)]"
  by (simp add: process_webhook_def process_record [OF parse_hello_event]
        send_text_message_def Let_def accepting_gateway_def response_json_def)

lemma process_anonymous_event:
  "process_webhook id example_settings accepting_gateway anonymous_event =
     (PDict [(''status'', PStr ''error''), (''error'', PStr ''AttributeError'')], [])"
  by (simp add: process_webhook_def process_record [OF parse_anonymous_event]
        send_text_message_def)

text \<open>
  Claim C1, as it is worded, fails on the code. For the event of the end-to-end example
  and a gateway that accepts the message, the field \<^verbatim>\<open>sent\<close> of the result is the
  body that the gateway returned, not \<^verbatim>\<open>true\<close>; and for a message that names no
  sender the parser yields a record, yet no request is posted.
\<close>

theorem process_webhook_sent_true_counterexample:
  "fst (process_webhook id example_settings accepting_gateway hello_event)
      \<noteq> PDict [(''status'', PStr ''processed''), (''sent'', PBool True)]
   \<and> parse_webhook_message anonymous_event \<noteq> PNone
   \<and> length (snd (process_webhook id example_settings accepting_gateway anonymous_event)) \<noteq> 1"
  by (simp add: process_hello_event process_anonymous_event parse_anonymous_event
        accepted_reply_def)

text \<open>
  Claim C1, amended. When the parser yields no message, \<^verbatim>\<open>process_webhook\<close> posts no
  request and returns \<^verbatim>\<open>{status: no_message}\<close>. When the parser yields a record whose
  sender and text are strings, it posts exactly one request, the one of
  \<^verbatim>\<open>send_text_message\<close> for the generated reply, and returns
  \<^verbatim>\<open>{status: processed, sent: result}\<close> where \<open>result\<close> is the value that
  \<^verbatim>\<open>send_text_message\<close> returned. When the sender of the record is not a string, it
  posts no request and returns the status \<^verbatim>\<open>error\<close>.
\<close>

theorem process_webhook_send_attempts:
  "(parse_webhook_message data = PNone \<longrightarrow>
      process_webhook ul cfg gw data = (PDict [(''status'', PStr ''no_message'')], []))
   \<and> (field (parse_webhook_message data) ''from'' = Some (PStr sender)
        \<and> field (parse_webhook_message data) ''text'' = Some (PStr message_text) \<longrightarrow>
        (\<exists>result request.
           send_text_message cfg gw (PStr sender)
               (generate_response ul cfg (PStr message_text) (PStr sender))
             = (Inr result, [request])
           \<and> process_webhook ul cfg gw data =
               (PDict [(''status'', PStr ''processed''), (''sent'', result)], [request])))
   \<and> (field (parse_webhook_message data) ''from'' = Some v \<and> (\<forall>s. v \<noteq> PStr s) \<longrightarrow>
        snd (process_webhook ul cfg gw data) = []
        \<and> field (fst (process_webhook ul cfg gw data)) ''status'' = Some (PStr ''error''))"
proof (intro conjI impI)
  assume "parse_webhook_message data = PNone"
  then show "process_webhook ul cfg gw data = (PDict [(''status'', PStr ''no_message'')], [])"
    by (rule process_no_message)
next
  assume "field (parse_webhook_message data) ''from'' = Some (PStr sender)
        \<and> field (parse_webhook_message data) ''text'' = Some (PStr message_text)"
  then show "\<exists>result request.
           send_text_message cfg gw (PStr sender)
               (generate_response ul cfg (PStr message_text) (PStr sender))
             = (Inr result, [request])
           \<and> process_webhook ul cfg gw data =
               (PDict [(''status'', PStr ''processed''), (''sent'', result)], [request])"
    by (elim conjE) (rule process_one_send)
next
  assume "field (parse_webhook_message data) ''from'' = Some v \<and> (\<forall>s. v \<noteq> PStr s)"
  then show "snd (process_webhook ul cfg gw data) = []"
    by (elim conjE) (rule process_no_sender [THEN conjunct1])
next
  assume "field (parse_webhook_message data) ''from'' = Some v \<and> (\<forall>s. v \<noteq> PStr s)"
  then show "field (fst (process_webhook ul cfg gw data)) ''status'' = Some (PStr ''error'')"
    by (elim conjE) (rule process_no_sender [THEN conjunct2])
qed

theorem process_webhook_send_attempts_witness:
  "parse_webhook_message status_callback = PNone
   \<and> process_webhook id example_settings accepting_gateway status_callback
       = (PDict [(''status'', PStr ''no_message'')], [])
   \<and> field (parse_webhook_message hello_event) ''from'' = Some (PStr ''5551234'')
   \<and> field (parse_webhook_message hello_event) ''text'' = Some (PStr ''Hello there'')
   \<and> (\<exists>request. process_webhook id example_settings accepting_gateway hello_event
         = (PDict [(''status'', PStr ''processed''), (''sent'', accepted_reply)], [request]))
   \<and> field (parse_webhook_message anonymous_event) ''from'' = Some PNone
   \<and> snd (process_webhook id example_settings accepting_gateway anonymous_event) = []"
proof -
  have n: "parse_webhook_message status_callback = PNone"
    by (simp add: parse_webhook_message_def parse_webhook_message_body_def
          status_callback_def and_then_def)
  have h: "field (parse_webhook_message hello_event) ''from'' = Some (PStr ''5551234'')
           \<and> field (parse_webhook_message hello_event) ''text'' = Some (PStr ''Hello there'')"
    by (simp add: parse_hello_event)
  have a: "field (parse_webhook_message anonymous_event) ''from'' = Some PNone
           \<and> (\<forall>s. PNone \<noteq> PStr s)"
    by (simp add: parse_anonymous_event)
  from process_webhook_send_attempts
    [where data = status_callback and ul = id and cfg = example_settings
       and gw = accepting_gateway and sender = "[]" and message_text = "[]" and v = PNone] n
  have s1: "process_webhook id example_settings accepting_gateway status_callback
             = (PDict [(''status'', PStr ''no_message'')], [])"
    by blast
  from process_webhook_send_attempts
    [where data = hello_event and ul = id and cfg = example_settings
       and gw = accepting_gateway and sender = "''5551234''"
       and message_text = "''Hello there''" and v = PNone] h
  obtain result request where
    s2: "process_webhook id example_settings accepting_gateway hello_event
          = (PDict [(''status'', PStr ''processed''), (''sent'', result)], [request])"
    by blast
  with process_hello_event have "result = accepted_reply" by simp
  with s2 have s2a: "\<exists>request. process_webhook id example_settings accepting_gateway hello_event
         = (PDict [(''status'', PStr ''processed''), (''sent'', accepted_reply)], [request])"
    by blast
  from process_webhook_send_attempts
    [where data = anonymous_event and ul = id and cfg = example_settings
       and gw = accepting_gateway and sender = "[]" and message_text = "[]" and v = PNone] a
  have s3: "snd (process_webhook id example_settings accepting_gateway anonymous_event) = []"
    by blast
  from n h a s1 s2a s3 show ?thesis by blast
qed

section \<open>Properties of the webhook endpoints\<close>

text \<open>
  What the orchestrator and the handler of the delivery endpoint return holds floats
  that are no numbers only where the gateway has answered with them.
\<close>

lemma send_text_message_compliant:
  assumes "\<forall>request status body. gw request = Replied status (Some body) \<longrightarrow> json_compliant body"
      and "fst (send_text_message cfg gw recipient text) = Inr result"
  shows "json_compliant result"
proof (cases recipient)
  case (PStr r)
  with assms show ?thesis
    by (auto simp: send_text_message_def Let_def response_json_def
             split: gateway_reply.splits option.splits if_splits)
qed (use assms(2) in \<open>simp_all add: send_text_message_def\<close>)

lemma process_webhook_compliant:
  assumes "\<forall>request status body. gw request = Replied status (Some body) \<longrightarrow> json_compliant body"
  shows "json_compliant (fst (process_webhook ul cfg gw data))"
  using parse_shape [of data]
proof
  assume "parse_webhook_message data = PNone"
  then show ?thesis by (simp add: process_no_message)
next
  assume "\<exists>a b c d e f. parse_webhook_message data = PDict
         [(''message_id'', a), (''from'', b), (''timestamp'', c), (''type'', d),
          (''text'', e), (''contact_name'', f)]"
  then obtain a b c d e f where p: "parse_webhook_message data = PDict
         [(''message_id'', a), (''from'', b), (''timestamp'', c), (''type'', d),
          (''text'', e), (''contact_name'', f)]"
    by blast
  show ?thesis
    using send_text_message_compliant [OF assms, of cfg b "generate_response ul cfg e b"]
    by (auto simp: process_webhook_def process_record [OF p] split: sum.splits prod.splits)
qed

text \<open>
  \<^verbatim>\<open>receive_message\<close> always returns a dictionary with one of the three values in the
  field \<^verbatim>\<open>status\<close>; the answer has status 200 when the dictionary can be rendered,
  which is so whenever the gateway has answered with numbers only.
\<close>

lemma receive_message_returns:
  "\<exists>body. fst (receive_message ul cfg gw message_processor request_body) = Inr (Json body)
     \<and> field body ''status'' \<in>
          {Some (PStr ''success''), Some (PStr ''no_message''), Some (PStr ''error'')}
     \<and> status_code (fst (receive_message ul cfg gw message_processor request_body))
          = (if json_compliant body then 200 else 500)"
  by (auto simp: receive_message_def receive_message_body_def split: sum.splits prod.splits)

lemma receive_message_acknowledges:
  assumes "\<forall>request status body. gw request = Replied status (Some body) \<longrightarrow> json_compliant body"
  shows "status_code (fst (receive_message ul cfg gw message_processor request_body)) = 200"
proof -
  have c: "json_compliant result" if "process_webhook ul cfg gw data = (result, posted)"
    for data result posted
    using process_webhook_compliant [OF assms, of ul cfg data] that by simp
  show ?thesis
    by (auto simp: receive_message_def receive_message_body_def
             split: sum.splits prod.splits dest: c)
qed

text \<open>
  Claim C7 does not hold of the code when the gateway answers a send with a body that
  holds \<^verbatim>\<open>NaN\<close> (or an infinity). The handler returns its dictionary with the status
  \<^verbatim>\<open>success\<close>, in which the body of the gateway is the field \<^verbatim>\<open>sent\<close> of the result;
  the framework cannot render it, and the delivery is answered with 500.
\<close>

theorem receive_message_nan_reply:
  "fst (receive_message id example_settings nan_gateway True (Some hello_event))
     = Inr (Json (PDict
         [(''status'', PStr ''success''),
          (''result'', PDict [(''status'', PStr ''processed''),
                              (''sent'', PDict [(''quota'', PFloat NaN)])])]))
   \<and> status_code (fst (receive_message id example_settings nan_gateway True (Some hello_event)))
     = 500"
proof -
  have e: "and_then (py_get hello_event ''entry'' (PList [])) py_len = Inr 1"
    by (simp add: hello_event_def and_then_def)
  obtain posted where p: "process_webhook id example_settings nan_gateway hello_event =
      (PDict [(''status'', PStr ''processed''), (''sent'', PDict [(''quota'', PFloat NaN)])],
       posted)"
    by (simp add: process_webhook_def process_record [OF parse_hello_event]
          send_text_message_def Let_def nan_gateway_def response_json_def)
  show ?thesis
    by (simp add: receive_message_def receive_message_body_def response_json_def e p)
qed

text \<open>
  Claim C9. The handshake succeeds exactly when the mode is \<^verbatim>\<open>subscribe\<close> and the
  token equals the configured verify token. On success the body of the response is the
  challenge, unchanged; on failure the handler raises the HTTP error 403 with a fixed
  detail, in which the challenge does not occur.
\<close>

theorem verify_webhook_handshake:
  "(status_code (verify_webhook cfg hub_mode hub_verify_token hub_challenge) = 200
      \<longleftrightarrow> hub_mode = Some ''subscribe'' \<and> hub_verify_token = Some (verify_token cfg))
   \<and> (hub_mode = Some ''subscribe'' \<and> hub_verify_token = Some (verify_token cfg)
        \<longrightarrow> verify_webhook cfg hub_mode hub_verify_token (Some challenge)
              = Inr (Plain challenge))
   \<and> (\<not> (hub_mode = Some ''subscribe'' \<and> hub_verify_token = Some (verify_token cfg))
        \<longrightarrow> verify_webhook cfg hub_mode hub_verify_token hub_challenge
              = Inl (HTTPException 403 ''Verification failed''))"
  by (simp add: verify_webhook_def)

theorem verify_webhook_handshake_witness:
  "verify_webhook example_settings (Some ''subscribe'') (Some ''verify-me'') (Some ''abc123'')
     = Inr (Plain ''abc123'')
   \<and> verify_webhook example_settings (Some ''subscribe'') (Some ''wrong'') (Some ''abc123'')
     = Inl (HTTPException 403 ''Verification failed'')"
  using verify_webhook_handshake
    [of example_settings "Some ''subscribe''" "Some ''verify-me''" "Some ''abc123''" "''abc123''"]
    verify_webhook_handshake
    [of example_settings "Some ''subscribe''" "Some ''wrong''" "Some ''abc123''" "''abc123''"]
  by (simp add: example_settings_def)

section \<open>Properties of the alert sending with retry\<close>

text \<open>
  For any bound, the number of requests is at most the number of attempts that are left.
\<close>

lemma send_alert_from_requests_bounded:
  "length (filter is_request
      (snd (send_alert_from url method max_retries timeout hdrs json_data client attempt)))
     \<le> nat (max_retries - int attempt)"
proof (induction url "method" max_retries timeout hdrs json_data client attempt
        rule: send_alert_from.induct)
  case (1 url verb max_retries timeout hdrs json_data client attempt)
  show ?case
  proof (cases "int attempt < max_retries")
    case False
    then show ?thesis by (subst send_alert_from.simps) simp
  next
    case True
    show ?thesis
    proof (cases "client attempt")
      case (Inr r)
      with True show ?thesis by (subst send_alert_from.simps) (simp add: Let_def)
    next
      case (Inl e)
      show ?thesis
      proof (cases "int attempt = max_retries - 1")
        case True
        with Inl \<open>int attempt < max_retries\<close> show ?thesis
          by (subst send_alert_from.simps) (simp add: Let_def)
      next
        case False
        with "1.IH" [OF True refl Inl False] Inl True show ?thesis
          by (subst send_alert_from.simps) (auto simp: Let_def split: prod.splits)
      qed
    qed
  qed
qed

lemma send_alert_with_retry_three:
  "send_alert_with_retry url method 3 timeout hdrs json_data client =
     (let request = (if method = ''POST'' then Post url hdrs json_data timeout
                     else Get url hdrs timeout) in
      case client 0 of
        Inr r0 \<Rightarrow> (Inr (Some r0), [request])
      | Inl e0 \<Rightarrow>
     (case client 1 of
        Inr r1 \<Rightarrow> (Inr (Some r1), [request, Sleep 1, request])
      | Inl e1 \<Rightarrow>
     (case client 2 of
        Inr r2 \<Rightarrow> (Inr (Some r2), [request, Sleep 1, request, Sleep 2, request])
      | Inl e2 \<Rightarrow> (Inl e2, [request, Sleep 1, request, Sleep 2, request]))))"
  by (simp add: send_alert_with_retry_def
        send_alert_from.simps [of _ _ _ _ _ _ _ 0]
        send_alert_from.simps [of _ _ _ _ _ _ _ "Suc 0"]
        send_alert_from.simps [of _ _ _ _ _ _ _ "Suc (Suc 0)"] Let_def numeral_2_eq_2
        split: sum.splits)

text \<open>
  Claim C5. With its default parameters \<^verbatim>\<open>send_alert_with_retry\<close> makes at most three
  requests, each with the timeout of 120 seconds. It returns the response of the first
  request that raises nothing. After the failure of attempt 0 it sleeps 1 second, after
  the failure of attempt 1 it sleeps 2 seconds (\<open>2 ^ n\<close> after attempt \<open>n\<close>), and when
  the third request fails it raises that failure again, without a further sleep or
  request.
\<close>

theorem send_alert_with_retry_default:
  "default_max_retries = 3 \<and> default_timeout = 120 \<and>
   send_alert_with_retry url default_method default_max_retries default_timeout
       hdrs json_data client =
     (let request = Post url hdrs json_data 120 in
      case client 0 of
        Inr r0 \<Rightarrow> (Inr (Some r0), [request])
      | Inl e0 \<Rightarrow>
     (case client 1 of
        Inr r1 \<Rightarrow> (Inr (Some r1), [request, Sleep (2 ^ 0), request])
      | Inl e1 \<Rightarrow>
     (case client 2 of
        Inr r2 \<Rightarrow>
          (Inr (Some r2), [request, Sleep (2 ^ 0), request, Sleep (2 ^ 1), request])
      | Inl e2 \<Rightarrow>
          (Inl e2, [request, Sleep (2 ^ 0), request, Sleep (2 ^ 1), request]))))"
  by (simp add: default_method_def default_max_retries_def default_timeout_def
        send_alert_with_retry_three Let_def split: sum.splits)

theorem send_alert_with_retry_default_witness:
  "send_alert_with_retry ''http://localhost:5000/admin/broadcast'' default_method
       default_max_retries default_timeout PNone alert_body flaky_client =
     (Inr (Some (PDict [(''status'', PStr ''success'')])),
      [Post ''http://localhost:5000/admin/broadcast'' PNone alert_body 120, Sleep 1,
       Post ''http://localhost:5000/admin/broadcast'' PNone alert_body 120, Sleep 2,
       Post ''http://localhost:5000/admin/broadcast'' PNone alert_body 120])"
  using send_alert_with_retry_default
    [of "''http://localhost:5000/admin/broadcast''" PNone alert_body flaky_client]
  by (simp add: flaky_client_def Let_def)

section \<open>Properties of the admin authentication and of the broadcast endpoint\<close>

text \<open>
  What \<^verbatim>\<open>verify_admin_api_key\<close> returns: false for a missing or empty candidate and
  for an empty configured key, and the equality of candidate and key when both are
  non-empty ASCII strings.
\<close>

lemma verify_admin_api_key_returns:
  "verify_admin_api_key cfg None = Inr False"
  "verify_admin_api_key cfg (Some []) = Inr False"
  "admin_api_key cfg = [] \<Longrightarrow> verify_admin_api_key cfg candidate = Inr False"
  "key \<noteq> [] \<Longrightarrow> admin_api_key cfg \<noteq> [] \<Longrightarrow> is_ascii key \<Longrightarrow> is_ascii (admin_api_key cfg)
     \<Longrightarrow> verify_admin_api_key cfg (Some key) = Inr (key = admin_api_key cfg)"
  by (simp_all add: verify_admin_api_key_def compare_digest_def split: option.splits)

lemma verify_admin_api_key_raises:
  "key \<noteq> [] \<Longrightarrow> admin_api_key cfg \<noteq> [] \<Longrightarrow> \<not> (is_ascii key \<and> is_ascii (admin_api_key cfg))
     \<Longrightarrow> verify_admin_api_key cfg (Some key) = Inl TypeError"
  by (simp add: verify_admin_api_key_def compare_digest_def)

lemma verify_admin_api_key_examples:
  "verify_admin_api_key example_settings (Some ''s3cret-admin-key'') = Inr True"
  "verify_admin_api_key example_settings (Some ''s3cret-admin-kez'') = Inr False"
  "verify_admin_api_key example_settings (Some ''guess'') = Inr False"
  by (simp_all add: verify_admin_api_key_def compare_digest_def is_ascii_def
        example_settings_def)

text \<open>
  Claim C4 does not hold of the code at a candidate with a character outside ASCII.
  With a non-empty configured key, \<^verbatim>\<open>verify_admin_api_key\<close> returns neither true nor
  false for such a candidate: \<^verbatim>\<open>secrets.compare_digest\<close> raises \<^verbatim>\<open>TypeError\<close>, and
  nothing in the function catches it. The same happens when the configured key itself has
  such a character and the candidate equals it.
\<close>

theorem verify_admin_api_key_non_ascii:
  "verify_admin_api_key example_settings (Some non_ascii_key) = Inl TypeError
   \<and> verify_admin_api_key (example_settings\<lparr>admin_api_key := non_ascii_key\<rparr>)
        (Some non_ascii_key) = Inl TypeError"
  by (simp add: verify_admin_api_key_def compare_digest_def is_ascii_def non_ascii_key_def
        example_settings_def)

text \<open>
  What the broadcast endpoint does before it calls the alert service: a caller whose key
  the check refuses gets 401, an accepted caller whose request has no message, or an
  empty one, gets 400, and in both cases the service is not called.
\<close>

lemma broadcast_refused_key:
  "verify_admin_api_key cfg x_api_key = Inr False \<Longrightarrow>
     send_broadcast_alert cfg alert_service x_api_key body
       = (Inl (HTTPException 401 ''Invalid or missing API key''), [])"
  by (simp add: send_broadcast_alert_def admin_auth_required_def)

lemma broadcast_without_message:
  assumes "verify_admin_api_key cfg x_api_key = Inr True"
      and "field (PDict request) ''message'' = None
           \<or> (\<exists>message. field (PDict request) ''message'' = Some message \<and> \<not> truthy message)"
  shows "send_broadcast_alert cfg alert_service x_api_key (Some (PDict request))
           = (Inl (HTTPException 400 ''Message is required''), [])"
  using assms
  by (auto simp: send_broadcast_alert_def admin_auth_required_def
        send_broadcast_alert_body_def response_json_def)

lemma broadcast_not_accepted_no_call:
  "verify_admin_api_key cfg x_api_key \<noteq> Inr True \<Longrightarrow>
     snd (send_broadcast_alert cfg alert_service x_api_key body) = []"
  by (auto simp: send_broadcast_alert_def admin_auth_required_def split: sum.splits)

text \<open>
  Claim C8 does not hold of the code for a caller whose key has a character outside
  ASCII: the exception of the key check leaves \<^verbatim>\<open>admin_auth_required\<close>, and the
  request is answered with 500 instead of 401. The alert service is not called.
\<close>

theorem send_broadcast_alert_non_ascii_key:
  "send_broadcast_alert example_settings (Some answering_service) (Some non_ascii_key)
       (Some alert_body) = (Inl (OtherException TypeError), [])
   \<and> status_code (fst (send_broadcast_alert example_settings (Some answering_service)
        (Some non_ascii_key) (Some alert_body))) = 500"
  by (simp add: send_broadcast_alert_def admin_auth_required_def verify_admin_api_key_def
        compare_digest_def is_ascii_def non_ascii_key_def example_settings_def)

end
